theory Spec2Isabelle
  imports
    Complex_Main
    "HOL-Library.Word"
    "HOL-Library.Char_ord"
    "HOL-Library.List_Lexorder"
begin

section \<open>Decimal coins (package types, \<open>DecCoin\<close> and \<open>DecCoins\<close>)\<close>

text \<open>
  \<open>sdk.Dec\<close> is declared outside the source files at hand. The decimal type is therefore
  the type parameter \<open>'d\<close>, and the three methods the coin code calls on it are
  parameters of the functions that use them: \<open>add\<close> for \<open>Dec.Add\<close>, \<open>isZero\<close> for
  \<open>Dec.IsZero\<close> and \<open>mul\<close> for \<open>Dec.Mul\<close>. Nothing is assumed about them.

  A Go \<open>string\<close> is a byte sequence; \<open>string\<close> here is a list of 8-bit characters,
  ordered lexicographically by character code, which is the order of \<open>strings.Compare\<close>.
\<close>

record 'd DecCoin =
  Denom :: string
  Amount :: 'd

type_synonym 'd DecCoins = "'d DecCoin list"

text \<open>\<open>strings.Compare\<close>: -1, 0 or 1.\<close>

definition Compare :: "string \<Rightarrow> string \<Rightarrow> int" where
  "Compare a b = (if a < b then - 1 else if a = b then 0 else 1)"

text \<open>\<open>func (coin DecCoin) Plus(coinB DecCoin) DecCoin\<close>\<close>

definition DecCoin_Plus :: "('d \<Rightarrow> 'd \<Rightarrow> 'd) \<Rightarrow> 'd DecCoin \<Rightarrow> 'd DecCoin \<Rightarrow> 'd DecCoin" where
  "DecCoin_Plus add coin coinB =
     (if \<not> (Denom coin = Denom coinB) then coin
      else \<lparr>Denom = Denom coin, Amount = add (Amount coin) (Amount coinB)\<rparr>)"

text \<open>
  The loop of \<open>func (coins DecCoins) Plus(coinsB DecCoins) DecCoins\<close>. The third
  argument is the slice \<open>sum\<close> (here \<open>sumCoins\<close>); the last two are the unread parts \<open>coins[indexA:]\<close> and
  \<open>coinsB[indexB:]\<close>. The \<open>switch\<close> has the three cases -1, 0 and 1 in this order.
\<close>

fun Plus_loop ::
  "('d \<Rightarrow> 'd \<Rightarrow> 'd) \<Rightarrow> ('d \<Rightarrow> bool) \<Rightarrow> 'd DecCoins \<Rightarrow> 'd DecCoins \<Rightarrow> 'd DecCoins \<Rightarrow> 'd DecCoins"
where
  "Plus_loop add isZero sumCoins [] [] = sumCoins"
| "Plus_loop add isZero sumCoins [] (coinB # coinsB) = sumCoins @ (coinB # coinsB)"
| "Plus_loop add isZero sumCoins (coinA # coins) [] = sumCoins @ (coinA # coins)"
| "Plus_loop add isZero sumCoins (coinA # coins) (coinB # coinsB) =
     (if Compare (Denom coinA) (Denom coinB) = - 1 then
        Plus_loop add isZero (sumCoins @ [coinA]) coins (coinB # coinsB)
      else if Compare (Denom coinA) (Denom coinB) = 0 then
        (if isZero (add (Amount coinA) (Amount coinB)) then
           Plus_loop add isZero sumCoins coins coinsB
         else
           Plus_loop add isZero (sumCoins @ [DecCoin_Plus add coinA coinB]) coins coinsB)
      else
        Plus_loop add isZero (sumCoins @ [coinB]) (coinA # coins) coinsB)"

definition Plus :: "('d \<Rightarrow> 'd \<Rightarrow> 'd) \<Rightarrow> ('d \<Rightarrow> bool) \<Rightarrow> 'd DecCoins \<Rightarrow> 'd DecCoins \<Rightarrow> 'd DecCoins" where
  "Plus add isZero coins coinsB = Plus_loop add isZero [] coins coinsB"


text \<open>
  A canonical list: denominations strictly increasing (sorted and unique) and no entry
  whose amount is zero. \<open>amountOf\<close> reads a list as a finite map from denominations.
\<close>

definition canonical :: "('d \<Rightarrow> bool) \<Rightarrow> 'd DecCoins \<Rightarrow> bool" where
  "canonical isZero coins \<longleftrightarrow>
     sorted_wrt (<) (map Denom coins) \<and> list_all (\<lambda>coin. \<not> isZero (Amount coin)) coins"

definition amountOf :: "'d DecCoins \<Rightarrow> string \<Rightarrow> 'd option" where
  "amountOf coins = map_of (map (\<lambda>coin. (Denom coin, Amount coin)) coins)"

text \<open>The merge the specification describes, on the two finite maps.\<close>

definition mergedAmount :: "('d \<Rightarrow> 'd \<Rightarrow> 'd) \<Rightarrow> ('d \<Rightarrow> bool) \<Rightarrow> 'd option \<Rightarrow> 'd option \<Rightarrow> 'd option" where
  "mergedAmount add isZero x y =
     (case x of
        None \<Rightarrow> y
      | Some a \<Rightarrow>
          (case y of
             None \<Rightarrow> Some a
           | Some b \<Rightarrow> if isZero (add a b) then None else Some (add a b)))"

text \<open>
  The same merge without the accumulator; \<open>Plus_loop_mergeCoins\<close> below shows that the
  loop computes it.
\<close>

fun mergeCoins ::
  "('d \<Rightarrow> 'd \<Rightarrow> 'd) \<Rightarrow> ('d \<Rightarrow> bool) \<Rightarrow> 'd DecCoins \<Rightarrow> 'd DecCoins \<Rightarrow> 'd DecCoins"
where
  "mergeCoins add isZero [] coinsB = coinsB"
| "mergeCoins add isZero (coinA # coins) [] = coinA # coins"
| "mergeCoins add isZero (coinA # coins) (coinB # coinsB) =
     (if Denom coinA < Denom coinB then coinA # mergeCoins add isZero coins (coinB # coinsB)
      else if Denom coinA = Denom coinB then
        (if isZero (add (Amount coinA) (Amount coinB)) then mergeCoins add isZero coins coinsB
         else \<lparr>Denom = Denom coinA, Amount = add (Amount coinA) (Amount coinB)\<rparr>
                # mergeCoins add isZero coins coinsB)
      else coinB # mergeCoins add isZero (coinA # coins) coinsB)"


section \<open>Application state (package state)\<close>

text \<open>
  \<open>PanicSanity\<close> of go-common panics with its message. The client \<open>eyesCli\<close> is kept
  as a field of an arbitrary type.
\<close>

datatype state_error = PanicSanity string

record checkAccount =
  sequence :: "64 word"
  balance :: "64 word"

record 'c State =
  chainID :: string
  eyesCli :: 'c
  checkCache :: "string \<rightharpoonup> checkAccount"
  LastBlockHeight :: "64 word"
  LastBlockHash :: "8 word list"
  GasLimit :: "64 word"

definition NewState :: "'c \<Rightarrow> 'c State" where
  "NewState cli =
     \<lparr>chainID = '''', eyesCli = cli, checkCache = Map.empty,
      LastBlockHeight = 0, LastBlockHash = [], GasLimit = 0\<rparr>"

definition SetChainID :: "'c State \<Rightarrow> string \<Rightarrow> 'c State" where
  "SetChainID s newChainID = s\<lparr>chainID := newChainID\<rparr>"

definition GetChainID :: "'c State \<Rightarrow> state_error + string" where
  "GetChainID s =
     (if chainID s = '''' then Inl (PanicSanity ''Expected to have set SetChainID'')
      else Inr (chainID s))"

section \<open>Slashing hooks (package slashing)\<close>

text \<open>
  \<open>time.Unix(sec, nsec)\<close> is kept as the pair of its arguments. Heights are \<open>int64\<close>.
  \<open>sdk.ZeroDec()\<close> is the parameter \<open>zeroDec\<close> of the decimal type \<open>'d\<close>.
\<close>

type_synonym ConsAddress = "8 word list"

datatype Time = Unix int int

record ValidatorSigningInfo =
  StartHeight :: "64 word"
  IndexOffset :: "64 word"
  JailedUntil :: Time
  SignedBlocksCounter :: "64 word"

record 'd ValidatorSlashingPeriod =
  ValidatorAddr :: ConsAddress
  PeriodStartHeight :: "64 word"
  EndHeight :: "64 word"
  SlashedSoFar :: 'd

text \<open>
  The context: the block height and the two parts of the key-value store that the hook
  reaches through the keeper. The field \<open>StartHeight\<close> of a slashing period is
  \<open>PeriodStartHeight\<close> here, the name being taken by the signing info.
\<close>

record 'd Context =
  BlockHeight :: "64 word"
  signingInfoStore :: "ConsAddress \<rightharpoonup> ValidatorSigningInfo"
  slashingPeriodStore :: "ConsAddress \<times> 64 word \<rightharpoonup> 'd ValidatorSlashingPeriod"

text \<open>
  Modelled from the spec: \<open>Keeper.getValidatorSigningInfo\<close> and
  \<open>Keeper.setValidatorSigningInfo\<close> are not among the source files. The storage boundary of
  the specification gives \<open>Get(key)\<close>, returning the value or absent, and
  \<open>Set(key, value)\<close>, with signing infos under \<open>signinginfo/<addr>\<close>. The result
  \<open>None\<close> stands for \<open>found = false\<close>.
\<close>

definition getValidatorSigningInfo :: "'d Context \<Rightarrow> ConsAddress \<Rightarrow> ValidatorSigningInfo option" where
  "getValidatorSigningInfo ctx address = signingInfoStore ctx address"

definition setValidatorSigningInfo ::
  "'d Context \<Rightarrow> ConsAddress \<Rightarrow> ValidatorSigningInfo \<Rightarrow> 'd Context" where
  "setValidatorSigningInfo ctx address info =
     ctx\<lparr>signingInfoStore := (signingInfoStore ctx)(address \<mapsto> info)\<rparr>"

text \<open>
  Modelled from the spec: \<open>Keeper.addOrUpdateValidatorSlashingPeriod\<close> is not among the
  source files. The specification stores slashing periods under
  \<open>slashingperiod/<addr><startHeight>\<close>; the record is set under that key.
\<close>

definition addOrUpdateValidatorSlashingPeriod ::
  "'d Context \<Rightarrow> 'd ValidatorSlashingPeriod \<Rightarrow> 'd Context" where
  "addOrUpdateValidatorSlashingPeriod ctx slashingPeriod =
     ctx\<lparr>slashingPeriodStore :=
           (slashingPeriodStore ctx)
             ((ValidatorAddr slashingPeriod, PeriodStartHeight slashingPeriod) \<mapsto> slashingPeriod)\<rparr>"

text \<open>\<open>func (k Keeper) onValidatorBonded(ctx sdk.Context, address sdk.ConsAddress)\<close>\<close>

definition onValidatorBonded :: "'d \<Rightarrow> 'd Context \<Rightarrow> ConsAddress \<Rightarrow> 'd Context" where
  "onValidatorBonded zeroDec ctx address =
     (let ctx1 =
            (case getValidatorSigningInfo ctx address of
               None \<Rightarrow>
                 setValidatorSigningInfo ctx address
                   \<lparr>StartHeight = BlockHeight ctx, IndexOffset = 0,
                    JailedUntil = Unix 0 0, SignedBlocksCounter = 0\<rparr>
             | Some _ \<Rightarrow> ctx);
          slashingPeriod =
            \<lparr>ValidatorAddr = address, PeriodStartHeight = BlockHeight ctx1,
             EndHeight = 0, SlashedSoFar = zeroDec\<rparr>
      in addOrUpdateValidatorSlashingPeriod ctx1 slashingPeriod)"

text \<open>\<open>func (h Hooks) OnValidatorBonded\<close> passes its arguments to the keeper \<open>h.k\<close>.\<close>

definition OnValidatorBonded :: "'d \<Rightarrow> 'd Context \<Rightarrow> ConsAddress \<Rightarrow> 'd Context" where
  "OnValidatorBonded zeroDec ctx address = onValidatorBonded zeroDec ctx address"

section \<open>Pools and candidates (package stake)\<close>

text \<open>
  The test file of package stake (\<open>TestBondedToUnbondedPool\<close> to
  \<open>TestIntegrationInvariants\<close>) is among the source files; the file that declares
  \<open>Pool\<close>, \<open>Candidate\<close> and their methods is not. The records below have the fields
  of the struct literals in \<open>randomSetup\<close> and \<open>randomCandidate\<close>. Token counts are
  \<open>int64\<close> (\<open>64 word\<close>, read by \<open>sint\<close>); \<open>sdk.Rat\<close> is an exact rational (\<open>rat\<close>),
  with \<open>Add\<close>, \<open>Sub\<close>, \<open>Mul\<close>, \<open>Quo\<close>, \<open>GT\<close>, \<open>LT\<close> the operations of the field.
\<close>

datatype CandidateStatus = Bonded | Unbonded

record Candidate =
  Status :: CandidateStatus
  Address :: string
  PubKey :: string
  Assets :: rat
  Liabilities :: rat

type_synonym Candidates = "Candidate list"

record Pool =
  TotalSupply :: "64 word"
  BondedShares :: rat
  UnbondedShares :: rat
  BondedPool :: "64 word"
  UnbondedPool :: "64 word"
  InflationLastTime :: "64 word"
  Inflation :: rat

datatype stake_error = IndexOutOfRange | DivisionByZero | InvariantViolation

text \<open>\<open>sdk.NewRat(n)\<close> for an \<open>int64\<close>.\<close>

definition NewRat :: "64 word \<Rightarrow> rat" where
  "NewRat n = of_int (sint n)"

text \<open>
  Modelled from the spec: \<open>sdk.Rat.Evaluate\<close>, the conversion of a rational to an
  \<open>int64\<close> token count, is not among the source files. The specification rounds a share
  value to tokens downwards (``floor-rounded toward the pool''). The source files apply
  \<open>Evaluate\<close> in \<open>randomSetup\<close> to whole numbers only, where no rounding happens.
\<close>

definition Evaluate :: "rat \<Rightarrow> 64 word" where
  "Evaluate r = word_of_int \<lfloor>r\<rfloor>"

text \<open>
  Modelled from the spec: \<open>Pool.bondedShareExRate\<close> and \<open>Pool.unbondedShareExRate\<close> are
  not among the source files. ``Exchange rate \<open>bondedShareExRate = bondedPool / bondedShares\<close>
  (defined as 1 when bondedShares is zero) and symmetric for unbonded.''
\<close>

definition bondedShareExRate :: "Pool \<Rightarrow> rat" where
  "bondedShareExRate p =
     (if BondedShares p = 0 then 1 else NewRat (BondedPool p) / BondedShares p)"

definition unbondedShareExRate :: "Pool \<Rightarrow> rat" where
  "unbondedShareExRate p =
     (if UnbondedShares p = 0 then 1 else NewRat (UnbondedPool p) / UnbondedShares p)"

text \<open>
  Modelled from the spec: \<open>Candidate.delegatorShareExRate\<close> is not among the source
  files. ``\<open>delegatorShareExRate = assets / liabilities\<close> (1 if liabilities is zero).''
\<close>

definition delegatorShareExRate :: "Candidate \<Rightarrow> rat" where
  "delegatorShareExRate candidate =
     (if Liabilities candidate = 0 then 1 else Assets candidate / Liabilities candidate)"

text \<open>
  Modelled from the spec: \<open>Pool.addTokensBonded\<close> and \<open>Pool.addTokensUnbonded\<close> are not
  among the source files. The pool takes the tokens and issues shares at the rate before
  the deposit. The specification gives the number of shares as \<open>N/r\<close> for \<open>N\<close> tokens at
  rate \<open>r\<close> (tokens per share), the one that leaves the rate as it was; its other wording,
  ``\<open>tokens * currentExchangeRate\<close>'', agrees with it at rate 1, the only rate at which
  \<open>TestAddTokensBonded\<close> and \<open>TestAddTokensUnbonded\<close> call them. At rate 0 the quotient
  does not exist and the call fails.
\<close>

definition addTokensBonded :: "Pool \<Rightarrow> 64 word \<Rightarrow> stake_error + Pool \<times> rat" where
  "addTokensBonded p amount =
     (if bondedShareExRate p = 0 then Inl DivisionByZero
      else
        let issuedShares = NewRat amount / bondedShareExRate p
        in Inr (p\<lparr>BondedPool := BondedPool p + amount,
                  BondedShares := BondedShares p + issuedShares\<rparr>, issuedShares))"

definition addTokensUnbonded :: "Pool \<Rightarrow> 64 word \<Rightarrow> stake_error + Pool \<times> rat" where
  "addTokensUnbonded p amount =
     (if unbondedShareExRate p = 0 then Inl DivisionByZero
      else
        let issuedShares = NewRat amount / unbondedShareExRate p
        in Inr (p\<lparr>UnbondedPool := UnbondedPool p + amount,
                  UnbondedShares := UnbondedShares p + issuedShares\<rparr>, issuedShares))"

text \<open>
  Modelled from the spec: \<open>Pool.removeSharesBonded\<close> and \<open>Pool.removeSharesUnbonded\<close>
  are not among the source files. ``Tokens returned on withdrawal =
  \<open>shares * currentExchangeRate\<close>, floor-rounded toward the pool.''
\<close>

definition removeSharesBonded :: "Pool \<Rightarrow> rat \<Rightarrow> Pool \<times> 64 word" where
  "removeSharesBonded p shares =
     (let removedTokens = Evaluate (bondedShareExRate p * shares)
      in (p\<lparr>BondedShares := BondedShares p - shares,
            BondedPool := BondedPool p - removedTokens\<rparr>, removedTokens))"

definition removeSharesUnbonded :: "Pool \<Rightarrow> rat \<Rightarrow> Pool \<times> 64 word" where
  "removeSharesUnbonded p shares =
     (let removedTokens = Evaluate (unbondedShareExRate p * shares)
      in (p\<lparr>UnbondedShares := UnbondedShares p - shares,
            UnbondedPool := UnbondedPool p - removedTokens\<rparr>, removedTokens))"

text \<open>
  Modelled from the spec: \<open>Pool.bondedToUnbondedPool\<close> and \<open>Pool.unbondedToBondedPool\<close>
  are not among the source files. ``Moving a validator between bonded/unbonded pools
  removes its token value from one pool's tally and adds the identical amount to the
  other; share accounting for that validator is unaffected by the move itself (its own
  internal shares/liabilities are untouched; only which pool's totals it contributes to
  changes).'' The token value of the candidate is what the withdrawal of its assets from
  its pool returns; its assets leave the share total of that pool and join the share
  total of the other.
\<close>

definition bondedToUnbondedPool :: "Pool \<Rightarrow> Candidate \<Rightarrow> Pool \<times> Candidate" where
  "bondedToUnbondedPool p candidate =
     (let (p1, tokens) = removeSharesBonded p (Assets candidate)
      in (p1\<lparr>UnbondedPool := UnbondedPool p1 + tokens,
             UnbondedShares := UnbondedShares p1 + Assets candidate\<rparr>,
          candidate\<lparr>Status := Unbonded\<rparr>))"

definition unbondedToBondedPool :: "Pool \<Rightarrow> Candidate \<Rightarrow> Pool \<times> Candidate" where
  "unbondedToBondedPool p candidate =
     (let (p1, tokens) = removeSharesUnbonded p (Assets candidate)
      in (p1\<lparr>BondedPool := BondedPool p1 + tokens,
             BondedShares := BondedShares p1 + Assets candidate\<rparr>,
          candidate\<lparr>Status := Bonded\<rparr>))"

text \<open>
  Modelled from the spec: \<open>Pool.candidateAddTokens\<close> and \<open>Pool.candidateRemoveShares\<close>
  are not among the source files. A candidate's assets are the pool shares issued to it
  and its liabilities the shares it owes to delegators. Adding tokens deposits them in the
  pool of the candidate's status; the pool shares received join the assets, and the
  delegator shares issued, the product of the candidate's rate and the shares received as
  \<open>TestCandidateAddTokens\<close> has it, join the liabilities. Removing delegator shares
  withdraws their value in pool shares, the product of the candidate's rate and the
  shares as \<open>TestCandidateRemoveShares\<close> has it, from the pool of the candidate's status.
\<close>

definition candidateAddTokens ::
  "Pool \<Rightarrow> Candidate \<Rightarrow> 64 word \<Rightarrow> stake_error + Pool \<times> Candidate \<times> rat" where
  "candidateAddTokens p candidate amount =
     (let exRate = delegatorShareExRate candidate
      in case (if Status candidate = Bonded then addTokensBonded p amount
               else addTokensUnbonded p amount) of
           Inl e \<Rightarrow> Inl e
         | Inr (p1, receivedGlobalShares) \<Rightarrow>
             let issuedDelegatorShares = exRate * receivedGlobalShares
             in Inr (p1,
                     candidate\<lparr>Assets := Assets candidate + receivedGlobalShares,
                               Liabilities := Liabilities candidate + issuedDelegatorShares\<rparr>,
                     issuedDelegatorShares))"

definition candidateRemoveShares ::
  "Pool \<Rightarrow> Candidate \<Rightarrow> rat \<Rightarrow> Pool \<times> Candidate \<times> 64 word" where
  "candidateRemoveShares p candidate shares =
     (let globalPoolSharesToRemove = delegatorShareExRate candidate * shares;
          (p1, createdCoins) =
            (if Status candidate = Bonded then removeSharesBonded p globalPoolSharesToRemove
             else removeSharesUnbonded p globalPoolSharesToRemove)
      in (p1,
          candidate\<lparr>Assets := Assets candidate - globalPoolSharesToRemove,
                    Liabilities := Liabilities candidate - shares\<rparr>,
          createdCoins))"

subsection \<open>The random staking state and the random operations of the test file\<close>

text \<open>
  \<open>func randomCandidate(r *rand.Rand) Candidate\<close>. The draws from \<open>r\<close> are arguments:
  whether \<open>r.Float64() < 0.5\<close>, the generated public key, and the two values of
  \<open>r.Int31n(10000)\<close>.
\<close>

definition randomCandidate :: "bool \<Rightarrow> string \<Rightarrow> nat \<Rightarrow> nat \<Rightarrow> Candidate" where
  "randomCandidate lessThanHalf pubkey assetsDraw liabilitiesDraw =
     \<lparr>Status = (if lessThanHalf then Bonded else Unbonded),
      Address = ''A58856F0FD53BF058B4909A21AEC019107BA6160'',
      PubKey = pubkey,
      Assets = NewRat (of_nat assetsDraw),
      Liabilities = NewRat (of_nat liabilitiesDraw)\<rparr>"

text \<open>
  \<open>func randomSetup(r *rand.Rand) (Pool, Candidates, int64)\<close>: the loop over the
  generated candidates, and the state it starts from. The second argument of the loop is
  the slice \<open>candidates\<close>; the last is the list of candidates still to be generated.
\<close>

fun randomSetup_loop :: "Pool \<Rightarrow> Candidates \<Rightarrow> Candidate list \<Rightarrow> Pool \<times> Candidates" where
  "randomSetup_loop pool candidates [] = (pool, candidates)"
| "randomSetup_loop pool candidates (candidate # generated) =
     (let pool1 =
            (if Status candidate = Bonded then
               pool\<lparr>BondedShares := BondedShares pool + Assets candidate,
                    BondedPool := BondedPool pool + Evaluate (Assets candidate)\<rparr>
             else
               pool\<lparr>UnbondedShares := UnbondedShares pool + Assets candidate,
                    UnbondedPool := UnbondedPool pool + Evaluate (Assets candidate)\<rparr>)
      in randomSetup_loop pool1 (candidates @ [candidate]) generated)"

definition randomSetup :: "Candidate list \<Rightarrow> nat \<Rightarrow> Pool \<times> Candidates \<times> 64 word" where
  "randomSetup generated tokensDraw =
     (let pool = \<lparr>TotalSupply = 0, BondedShares = 0, UnbondedShares = 0, BondedPool = 0,
                  UnbondedPool = 0, InflationLastTime = 0, Inflation = 7 / 100\<rparr>;
          (pool1, candidates) = randomSetup_loop pool [] generated
      in (pool1, candidates, of_nat tokensDraw))"

text \<open>
  The three operations of \<open>randomOperation\<close>, each with its draws from \<open>r\<close> in the order
  in which the operation makes them. \<open>r.Int31n(int32(len(c)))\<close> panics on an empty
  \<open>c\<close> and otherwise yields an index below \<open>len(c)\<close>; an index outside \<open>c\<close> is the
  error \<open>IndexOutOfRange\<close>. The message string an operation returns is left out.
\<close>

datatype Operation =
  BondUnbond nat
| AddTokens nat nat
| RemoveShares nat nat

fun randomOperation ::
  "Operation \<Rightarrow> Pool \<times> Candidates \<times> 64 word \<Rightarrow> stake_error + Pool \<times> Candidates \<times> 64 word"
where
  "randomOperation (BondUnbond index) (p, c, t) =
     (if length c \<le> index then Inl IndexOutOfRange
      else
        let cand = c ! index;
            (p1, cand1) =
              (if Status cand = Bonded then
                 (let (p2, cand2) = bondedToUnbondedPool p cand
                  in (p2, cand2\<lparr>Status := Unbonded\<rparr>))
               else
                 (let (p2, cand2) = unbondedToBondedPool p cand
                  in (p2, cand2\<lparr>Status := Bonded\<rparr>)))
        in Inr (p1, c[index := cand1], t))"
| "randomOperation (AddTokens tokensDraw index) (p, c, t) =
     (let tokens = of_nat tokensDraw
      in if length c \<le> index then Inl IndexOutOfRange
         else
           let cand = c ! index
           in case candidateAddTokens p cand tokens of
                Inl e \<Rightarrow> Inl e
              | Inr (p1, cand1, _) \<Rightarrow> Inr (p1, c[index := cand1], t - tokens))"
| "randomOperation (RemoveShares sharesDraw index) (p, c, t) =
     (let shares = NewRat (of_nat sharesDraw)
      in if length c \<le> index then Inl IndexOutOfRange
         else
           let cand = c ! index;
               shares1 = (if shares > Liabilities cand then Liabilities cand / 2 else shares);
               (p1, cand1, tokens) = candidateRemoveShares p cand shares1
           in Inr (p1, c[index := cand1], t + tokens))"


text \<open>
  Modelled from the spec: the check that follows an operation. ``Every operation must
  re-verify, as a post-condition, that \<open>bondedShares \<ge> 0\<close>, \<open>unbondedShares \<ge> 0\<close>, and
  both exchange rates \<open>\<ge> 0\<close>; violating this is a fatal internal-invariant failure.'' The
  four comparisons are written as \<open>assertInvariants\<close> writes them (\<open>LT(sdk.ZeroRat)\<close> is
  false). \<open>TestCandidateRemoveShares\<close> expects \<open>candidateRemoveShares\<close> itself to return
  a pool with negative shares, so the check stands after the operation, where
  \<open>TestIntegrationInvariants\<close> has its assertions, and not inside the methods of the pool.
\<close>

definition postCondition :: "Pool \<Rightarrow> bool" where
  "postCondition p \<longleftrightarrow>
     \<not> BondedShares p < 0 \<and> \<not> UnbondedShares p < 0 \<and>
     \<not> bondedShareExRate p < 0 \<and> \<not> unbondedShareExRate p < 0"

definition verifiedOperation ::
  "Operation \<Rightarrow> Pool \<times> Candidates \<times> 64 word \<Rightarrow> stake_error + Pool \<times> Candidates \<times> 64 word"
where
  "verifiedOperation operation s =
     (case randomOperation operation s of
        Inl e \<Rightarrow> Inl e
      | Inr (p, c, t) \<Rightarrow> if postCondition p then Inr (p, c, t) else Inl InvariantViolation)"

text \<open>A sequence of operations, as the inner loop of \<open>TestIntegrationInvariants\<close> runs it.\<close>

fun runOperations ::
  "Operation list \<Rightarrow> Pool \<times> Candidates \<times> 64 word \<Rightarrow> stake_error + Pool \<times> Candidates \<times> 64 word"
where
  "runOperations [] s = Inr s"
| "runOperations (operation # operations) s =
     (case verifiedOperation operation s of
        Inl e \<Rightarrow> Inl e
      | Inr s1 \<Rightarrow> runOperations operations s1)"

text \<open>The sum that \<open>assertInvariants\<close> compares before and after: \<open>int64\<close> addition.\<close>

definition totalTokens :: "Pool \<times> Candidates \<times> 64 word \<Rightarrow> 64 word" where
  "totalTokens s = (case s of (p, c, t) \<Rightarrow> UnbondedPool p + BondedPool p + t)"







section \<open>Delegations and unbonding delegations (staking keeper)\<close>

text \<open>
  The keeper test (\<open>TestUnbondingDelegation\<close>, \<open>TestUnbondDelegation\<close> and, commented
  out, \<open>TestUnbondingDelegationsMaxEntries\<close>) is among the source files; the keeper, the
  validator type and the delegation types are not. The model below follows sections 3
  and 4.3 of the specification and stands on the pool and candidate operations above,
  which section 4.3 refers to as ``via 4.2''. Addresses are byte strings, token amounts
  are \<open>int64\<close>, shares are exact rationals, account balances are unbounded integers, and
  times are counted in seconds.
\<close>

datatype keeper_error = MaxEntriesExceeded | InsufficientFunds | NotFound | InternalError

record Delegation =
  DelegatorAddress :: string
  ValidatorAddress :: string
  Shares :: rat

record UnbondingDelegationEntry =
  CreationHeight :: "64 word"
  CompletionTime :: int
  InitialBalance :: "64 word"
  Balance :: "64 word"

record UnbondingDelegation =
  UnbondingDelegatorAddress :: string
  UnbondingValidatorAddress :: string
  Entries :: "UnbondingDelegationEntry list"

text \<open>
  The state the keeper works on: the pool, the stores keyed as in section 6 of the
  specification, the block height and time of the context, and the two parameters.
\<close>

record StakingKeeper =
  stakingPool :: Pool
  validators :: "string \<rightharpoonup> Candidate"
  delegations :: "string \<times> string \<rightharpoonup> Delegation"
  unbondingDelegations :: "string \<times> string \<rightharpoonup> UnbondingDelegation"
  accounts :: "string \<rightharpoonup> int"
  blockHeight :: "64 word"
  blockTime :: int
  maxEntries :: nat
  unbondingPeriod :: int

text \<open>
  Modelled from the spec: \<open>Validator.BondedTokens\<close> is not among the source files. Bonded
  tokens are the ``tokens actively backing a validator's consensus voting power'': the
  token value of a bonded validator's assets at the bonded rate, and none for a validator
  that is not bonded.
\<close>

definition BondedTokens :: "Pool \<Rightarrow> Candidate \<Rightarrow> 64 word" where
  "BondedTokens p validator =
     (if Status validator = Bonded then Evaluate (bondedShareExRate p * Assets validator)
      else 0)"

text \<open>
  Modelled from the spec: \<open>Keeper.Delegate\<close> is not among the source files.
  ``\<open>Delegate(delegator, validator, amount)\<close>: mints validator shares via 4.2, credits a
  Delegation record, debits delegator Account.'' An unknown validator is \<open>NotFound\<close>; an
  account that does not hold the amount is \<open>InsufficientFunds\<close>; a failure of the pool
  is \<open>InternalError\<close>.
\<close>

definition Delegate ::
  "StakingKeeper \<Rightarrow> string \<Rightarrow> string \<Rightarrow> 64 word \<Rightarrow> keeper_error + StakingKeeper" where
  "Delegate k delegator validator amount =
     (case validators k validator of
        None \<Rightarrow> Inl NotFound
      | Some candidate \<Rightarrow>
          (case accounts k delegator of
             None \<Rightarrow> Inl InsufficientFunds
           | Some held \<Rightarrow>
               if held < sint amount then Inl InsufficientFunds
               else
                 (case candidateAddTokens (stakingPool k) candidate amount of
                    Inl e \<Rightarrow> Inl InternalError
                  | Inr (p1, candidate1, issuedShares) \<Rightarrow>
                      let oldShares =
                            (case delegations k (delegator, validator) of
                               None \<Rightarrow> 0
                             | Some delegation \<Rightarrow> Shares delegation)
                      in Inr (k\<lparr>stakingPool := p1,
                                validators := (validators k)(validator \<mapsto> candidate1),
                                delegations :=
                                  (delegations k)
                                    ((delegator, validator) \<mapsto>
                                       \<lparr>DelegatorAddress = delegator,
                                        ValidatorAddress = validator,
                                        Shares = oldShares + issuedShares\<rparr>),
                                accounts := (accounts k)(delegator \<mapsto> held - sint amount)\<rparr>))))"

text \<open>
  Modelled from the spec: \<open>Keeper.Unbond\<close> is not among the source files
  (\<open>TestUnbondDelegation\<close> calls it and reads the amount it returns). It is the first
  half of \<open>Undelegate\<close>, ``burns validator shares via 4.2'': the shares leave the
  delegation, which is ``removed when shares reach zero'', their value leaves the
  validator and its pool, and the tokens withdrawn are returned. A missing delegation or
  validator is \<open>NotFound\<close>; more shares than the delegation holds is
  \<open>InsufficientFunds\<close>.
\<close>

definition Unbond ::
  "StakingKeeper \<Rightarrow> string \<Rightarrow> string \<Rightarrow> rat \<Rightarrow> keeper_error + StakingKeeper \<times> 64 word" where
  "Unbond k delegator validator shares =
     (case delegations k (delegator, validator) of
        None \<Rightarrow> Inl NotFound
      | Some delegation \<Rightarrow>
          (case validators k validator of
             None \<Rightarrow> Inl NotFound
           | Some candidate \<Rightarrow>
               if Shares delegation < shares then Inl InsufficientFunds
               else
                 let (p1, candidate1, tokens) = candidateRemoveShares (stakingPool k) candidate shares;
                     remaining = Shares delegation - shares;
                     delegations1 =
                       (if remaining = 0 then (delegations k)((delegator, validator) := None)
                        else (delegations k)
                               ((delegator, validator) \<mapsto> delegation\<lparr>Shares := remaining\<rparr>))
                 in Inr (k\<lparr>stakingPool := p1,
                           validators := (validators k)(validator \<mapsto> candidate1),
                           delegations := delegations1\<rparr>,
                         tokens)))"

text \<open>The pending entries of a (delegator, validator) pair.\<close>

definition pendingEntries :: "StakingKeeper \<Rightarrow> string \<Rightarrow> string \<Rightarrow> UnbondingDelegationEntry list" where
  "pendingEntries k delegator validator =
     (case unbondingDelegations k (delegator, validator) of
        None \<Rightarrow> []
      | Some ubd \<Rightarrow> Entries ubd)"

text \<open>
  Modelled from the spec: \<open>Keeper.Undelegate\<close> is not among the source files.
  ``\<open>Undelegate(delegator, validator, shares)\<close>: burns validator shares via 4.2, creates
  or appends to an UnbondingDelegation entry with \<open>completionTime = now + unbondingPeriod\<close>;
  fails with \<open>MaxEntriesExceeded\<close> if the (delegator, validator) pair already holds the
  configured maximum number of pending entries.'' The result is the completion time, as
  in the call of the commented-out test, together with the state; a failure ``aborts that
  view's writes'', so the state that comes with an error is the state before the call.
\<close>

definition Undelegate ::
  "StakingKeeper \<Rightarrow> string \<Rightarrow> string \<Rightarrow> rat \<Rightarrow> (keeper_error + int) \<times> StakingKeeper" where
  "Undelegate k delegator validator shares =
     (let entries = pendingEntries k delegator validator
      in if maxEntries k \<le> length entries then (Inl MaxEntriesExceeded, k)
         else
           (case Unbond k delegator validator shares of
              Inl e \<Rightarrow> (Inl e, k)
            | Inr (k1, tokens) \<Rightarrow>
                let completionTime = blockTime k + unbondingPeriod k;
                    entry = \<lparr>CreationHeight = blockHeight k, CompletionTime = completionTime,
                             InitialBalance = tokens, Balance = tokens\<rparr>
                in (Inr completionTime,
                    k1\<lparr>unbondingDelegations :=
                          (unbondingDelegations k1)
                            ((delegator, validator) \<mapsto>
                               \<lparr>UnbondingDelegatorAddress = delegator,
                                UnbondingValidatorAddress = validator,
                                Entries = entries @ [entry]\<rparr>)\<rparr>)))"

text \<open>
  Modelled from the spec: \<open>Keeper.CompleteUnbonding\<close> is not among the source files. It
  is the maturation sweep for one pair: it takes the ``entries whose
  \<open>completionTime \<le> blockTime\<close>, releases tokens back to the delegator's account
  (unbonding) \<dots> and removes matured entries''; the unbonding delegation is removed
  with its last entry. A pair without an unbonding delegation is \<open>NotFound\<close>.
\<close>

definition CompleteUnbonding ::
  "StakingKeeper \<Rightarrow> string \<Rightarrow> string \<Rightarrow> keeper_error + StakingKeeper" where
  "CompleteUnbonding k delegator validator =
     (case unbondingDelegations k (delegator, validator) of
        None \<Rightarrow> Inl NotFound
      | Some ubd \<Rightarrow>
          let matured = filter (\<lambda>entry. CompletionTime entry \<le> blockTime k) (Entries ubd);
              waiting = filter (\<lambda>entry. \<not> CompletionTime entry \<le> blockTime k) (Entries ubd);
              released = sum_list (map (\<lambda>entry. sint (Balance entry)) matured);
              held = (case accounts k delegator of None \<Rightarrow> 0 | Some b \<Rightarrow> b)
          in Inr (k\<lparr>accounts := (accounts k)(delegator \<mapsto> held + released),
                    unbondingDelegations :=
                      (if waiting = [] then
                         (unbondingDelegations k)((delegator, validator) := None)
                       else
                         (unbondingDelegations k)
                           ((delegator, validator) \<mapsto> ubd\<lparr>Entries := waiting\<rparr>))\<rparr>))"

text \<open>
  The validator of the delegation scenario: present, bonded, without assets or
  liabilities, in a bonded pool without tokens or shares, so that both rates are 1.
\<close>

definition freshValidator :: "StakingKeeper \<Rightarrow> string \<Rightarrow> bool" where
  "freshValidator k validator \<longleftrightarrow>
     (case validators k validator of
        None \<Rightarrow> False
      | Some candidate \<Rightarrow>
          Status candidate = Bonded \<and> Assets candidate = 0 \<and> Liabilities candidate = 0) \<and>
     BondedShares (stakingPool k) = 0 \<and> BondedPool (stakingPool k) = 0"

text \<open>
  Two states for the scenarios. In \<open>scenarioKeeper\<close> a delegator holding 10 tokens faces
  a fresh validator. In \<open>fullKeeper\<close> the delegator has 8 shares left with the validator
  and the pair holds two unbonding entries, the configured maximum there; the first entry
  matures at the block time, the second one later.
\<close>

definition scenarioKeeper :: StakingKeeper where
  "scenarioKeeper =
     \<lparr>stakingPool =
        \<lparr>TotalSupply = 0, BondedShares = 0, UnbondedShares = 0, BondedPool = 0,
         UnbondedPool = 0, InflationLastTime = 0, Inflation = 7 / 100\<rparr>,
      validators =
        [''validator0'' \<mapsto>
           \<lparr>Status = Bonded, Address = ''validator0'', PubKey = ''pk0'',
            Assets = 0, Liabilities = 0\<rparr>],
      delegations = Map.empty,
      unbondingDelegations = Map.empty,
      accounts = [''delegator0'' \<mapsto> 10],
      blockHeight = 1,
      blockTime = 0,
      maxEntries = 7,
      unbondingPeriod = 1814400\<rparr>"

definition fullKeeper :: StakingKeeper where
  "fullKeeper =
     \<lparr>stakingPool =
        \<lparr>TotalSupply = 0, BondedShares = 8, UnbondedShares = 0, BondedPool = 8,
         UnbondedPool = 0, InflationLastTime = 0, Inflation = 7 / 100\<rparr>,
      validators =
        [''validator0'' \<mapsto>
           \<lparr>Status = Bonded, Address = ''validator0'', PubKey = ''pk0'',
            Assets = 8, Liabilities = 8\<rparr>],
      delegations =
        [(''delegator0'', ''validator0'') \<mapsto>
           \<lparr>DelegatorAddress = ''delegator0'', ValidatorAddress = ''validator0'', Shares = 8\<rparr>],
      unbondingDelegations =
        [(''delegator0'', ''validator0'') \<mapsto>
           \<lparr>UnbondingDelegatorAddress = ''delegator0'',
            UnbondingValidatorAddress = ''validator0'',
            Entries =
              [\<lparr>CreationHeight = 1, CompletionTime = 1814400, InitialBalance = 1, Balance = 1\<rparr>,
               \<lparr>CreationHeight = 2, CompletionTime = 1814405, InitialBalance = 1, Balance = 1\<rparr>]\<rparr>],
      accounts = [''delegator0'' \<mapsto> 0],
      blockHeight = 3,
      blockTime = 1814400,
      maxEntries = 2,
      unbondingPeriod = 1814400\<rparr>"

section \<open>Theorems about decimal coins\<close>

lemma Plus_loop_mergeCoins:
  "Plus_loop add isZero sumCoins coins coinsB = sumCoins @ mergeCoins add isZero coins coinsB"
proof (induction add isZero coins coinsB arbitrary: sumCoins rule: mergeCoins.induct)
  case (1 add isZero coinsB)
  then show ?case by (cases coinsB) simp_all
next
  case (2 add isZero coinA coins)
  then show ?case by simp
next
  case (3 add isZero coinA coins coinB coinsB)
  then show ?case by (simp add: Compare_def DecCoin_Plus_def)
qed

lemma Plus_mergeCoins: "Plus add isZero coins coinsB = mergeCoins add isZero coins coinsB"
  by (simp add: Plus_def Plus_loop_mergeCoins)

lemma mergeCoins_denom_mem:
  "coin \<in> set (mergeCoins add isZero coins coinsB) \<Longrightarrow>
   Denom coin \<in> Denom ` set coins \<union> Denom ` set coinsB"
proof (induction add isZero coins coinsB rule: mergeCoins.induct)
  case (3 add isZero coinA coins coinB coinsB)
  then show ?case by (fastforce split: if_splits)
qed auto

lemma mergeCoins_denoms:
  "Denom ` set (mergeCoins add isZero coins coinsB) \<subseteq> Denom ` set coins \<union> Denom ` set coinsB"
  using mergeCoins_denom_mem by blast

lemma mergeCoins_sorted:
  "sorted_wrt (<) (map Denom coins) \<Longrightarrow> sorted_wrt (<) (map Denom coinsB) \<Longrightarrow>
   sorted_wrt (<) (map Denom (mergeCoins add isZero coins coinsB))"
proof (induction add isZero coins coinsB rule: mergeCoins.induct)
  case (3 add isZero coinA coins coinB coinsB)
  have sub1: "Denom ` set (mergeCoins add isZero coins (coinB # coinsB))
               \<subseteq> Denom ` set coins \<union> Denom ` set (coinB # coinsB)"
    by (rule mergeCoins_denoms)
  have sub2: "Denom ` set (mergeCoins add isZero coins coinsB)
               \<subseteq> Denom ` set coins \<union> Denom ` set coinsB"
    by (rule mergeCoins_denoms)
  have sub3: "Denom ` set (mergeCoins add isZero (coinA # coins) coinsB)
               \<subseteq> Denom ` set (coinA # coins) \<union> Denom ` set coinsB"
    by (rule mergeCoins_denoms)
  from 3 sub1 sub2 sub3 show ?case
    by (auto simp: subset_iff image_iff) (metis less_trans not_less_iff_gr_or_eq)+
qed simp_all

lemma amountOf_None: "d \<notin> Denom ` set coins \<Longrightarrow> amountOf coins d = None"
  by (induction coins) (auto simp: amountOf_def)

lemma amountOf_Cons:
  "amountOf (coin # coins) d = (if d = Denom coin then Some (Amount coin) else amountOf coins d)"
  by (simp add: amountOf_def)

lemma mergeCoins_amountOf:
  "sorted_wrt (<) (map Denom coins) \<Longrightarrow> sorted_wrt (<) (map Denom coinsB) \<Longrightarrow>
   amountOf (mergeCoins add isZero coins coinsB) d
     = mergedAmount add isZero (amountOf coins d) (amountOf coinsB d)"
proof (induction add isZero coins coinsB rule: mergeCoins.induct)
  case (1 add isZero coinsB)
  then show ?case by (simp add: mergedAmount_def amountOf_def)
next
  case (2 add isZero coinA coins)
  then show ?case by (simp add: mergedAmount_def amountOf_def split: option.splits)
next
  case (3 add isZero coinA coins coinB coinsB)
  have nA: "\<And>x. x \<le> Denom coinA \<Longrightarrow> amountOf coins x = None"
    using 3(5) by (intro amountOf_None) auto
  have nB: "\<And>x. x \<le> Denom coinB \<Longrightarrow> amountOf coinsB x = None"
    using 3(6) by (intro amountOf_None) auto
  show ?case
  proof (cases "Denom coinA < Denom coinB")
    case True
    with 3 nB show ?thesis
      by (auto simp: amountOf_Cons mergedAmount_def split: option.splits)
  next
    case False
    show ?thesis
    proof (cases "Denom coinA = Denom coinB")
      case True
      with 3 nA nB show ?thesis
        by (auto simp: amountOf_Cons mergedAmount_def split: option.splits)
    next
      case ne: False
      with False have "Denom coinB < Denom coinA" by auto
      with 3 False ne nA show ?thesis
        by (auto simp: amountOf_Cons mergedAmount_def split: option.splits)
    qed
  qed
qed

lemma mergeCoins_nonzero:
  "list_all (\<lambda>coin. \<not> isZero (Amount coin)) coins \<Longrightarrow>
   list_all (\<lambda>coin. \<not> isZero (Amount coin)) coinsB \<Longrightarrow>
   list_all (\<lambda>coin. \<not> isZero (Amount coin)) (mergeCoins add isZero coins coinsB)"
  by (induction add isZero coins coinsB rule: mergeCoins.induct) auto


text \<open>
  C10. \<open>DecCoin.Plus\<close> on two coins: when the denominations differ the receiver comes
  back unchanged and the amount of the argument is dropped; the amounts are added (by
  \<open>Dec.Add\<close>) exactly when the denominations are equal.
\<close>

theorem DecCoin_Plus_denoms:
  "(Denom coin \<noteq> Denom coinB \<longrightarrow> DecCoin_Plus add coin coinB = coin) \<and>
   (Denom coin = Denom coinB \<longrightarrow>
      DecCoin_Plus add coin coinB
        = \<lparr>Denom = Denom coin, Amount = add (Amount coin) (Amount coinB)\<rparr>)"
  by (simp add: DecCoin_Plus_def)

theorem DecCoin_Plus_denoms_witness:
  "DecCoin_Plus (+) \<lparr>Denom = ''atom'', Amount = (3::int)\<rparr> \<lparr>Denom = ''photon'', Amount = 4\<rparr>
     = \<lparr>Denom = ''atom'', Amount = 3\<rparr> \<and>
   DecCoin_Plus (+) \<lparr>Denom = ''atom'', Amount = (3::int)\<rparr> \<lparr>Denom = ''atom'', Amount = 4\<rparr>
     = \<lparr>Denom = ''atom'', Amount = 7\<rparr>"
  using DecCoin_Plus_denoms [of "\<lparr>Denom = ''atom'', Amount = (3::int)\<rparr>"
                               "\<lparr>Denom = ''photon'', Amount = 4\<rparr>" "(+)"]
        DecCoin_Plus_denoms [of "\<lparr>Denom = ''atom'', Amount = (3::int)\<rparr>"
                               "\<lparr>Denom = ''atom'', Amount = 4\<rparr>" "(+)"]
  by simp


text \<open>
  C3. For two canonical lists (denominations strictly increasing, no zero amount),
  \<open>DecCoins.Plus\<close> returns a list whose denominations are again strictly increasing and
  which, read as a map, is the merge of the two arguments: a denomination held by one
  argument keeps its amount, a denomination held by both gets the sum of the amounts, and
  is absent when that sum is zero. No entry of the result has a zero amount.
\<close>

theorem DecCoins_Plus_sorted_merge:
  assumes "canonical isZero coins" and "canonical isZero coinsB"
  shows "canonical isZero (Plus add isZero coins coinsB) \<and>
         (\<forall>d. amountOf (Plus add isZero coins coinsB) d
                = mergedAmount add isZero (amountOf coins d) (amountOf coinsB d))"
  using assms
  by (simp add: canonical_def Plus_mergeCoins mergeCoins_sorted mergeCoins_amountOf
        mergeCoins_nonzero)

theorem DecCoins_Plus_sorted_merge_witness:
  "canonical (\<lambda>x. x = 0) [\<lparr>Denom = ''atom'', Amount = (1::int)\<rparr>, \<lparr>Denom = ''btc'', Amount = 5\<rparr>] \<and>
   canonical (\<lambda>x. x = 0) [\<lparr>Denom = ''atom'', Amount = (- 1::int)\<rparr>, \<lparr>Denom = ''eth'', Amount = 2\<rparr>] \<and>
   canonical (\<lambda>x. x = 0)
     (Plus (+) (\<lambda>x. x = 0)
        [\<lparr>Denom = ''atom'', Amount = (1::int)\<rparr>, \<lparr>Denom = ''btc'', Amount = 5\<rparr>]
        [\<lparr>Denom = ''atom'', Amount = - 1\<rparr>, \<lparr>Denom = ''eth'', Amount = 2\<rparr>]) \<and>
   amountOf
     (Plus (+) (\<lambda>x. x = 0)
        [\<lparr>Denom = ''atom'', Amount = (1::int)\<rparr>, \<lparr>Denom = ''btc'', Amount = 5\<rparr>]
        [\<lparr>Denom = ''atom'', Amount = - 1\<rparr>, \<lparr>Denom = ''eth'', Amount = 2\<rparr>]) ''atom'' = None \<and>
   Plus (+) (\<lambda>x. x = 0)
        [\<lparr>Denom = ''atom'', Amount = (1::int)\<rparr>, \<lparr>Denom = ''btc'', Amount = 5\<rparr>]
        [\<lparr>Denom = ''atom'', Amount = - 1\<rparr>, \<lparr>Denom = ''eth'', Amount = 2\<rparr>]
     = [\<lparr>Denom = ''btc'', Amount = 5\<rparr>, \<lparr>Denom = ''eth'', Amount = 2\<rparr>]"
proof -
  let ?A = "[\<lparr>Denom = ''atom'', Amount = (1::int)\<rparr>, \<lparr>Denom = ''btc'', Amount = 5\<rparr>]"
  let ?B = "[\<lparr>Denom = ''atom'', Amount = (- 1::int)\<rparr>, \<lparr>Denom = ''eth'', Amount = 2\<rparr>]"
  have a: "canonical (\<lambda>x. x = 0) ?A" by (simp add: canonical_def)
  have b: "canonical (\<lambda>x. x = 0) ?B" by (simp add: canonical_def)
  have p: "Plus (+) (\<lambda>x. x = 0) ?A ?B
             = [\<lparr>Denom = ''btc'', Amount = 5\<rparr>, \<lparr>Denom = ''eth'', Amount = 2\<rparr>]"
    by (simp add: Plus_def Compare_def DecCoin_Plus_def)
  from DecCoins_Plus_sorted_merge [OF a b, of "(+)"]
  have "canonical (\<lambda>x. x = 0) (Plus (+) (\<lambda>x. x = 0) ?A ?B)"
    and "amountOf (Plus (+) (\<lambda>x. x = 0) ?A ?B) ''atom''
           = mergedAmount (+) (\<lambda>x. x = 0) (amountOf ?A ''atom'') (amountOf ?B ''atom'')"
    by blast+
  then show ?thesis using a b p by (simp add: mergedAmount_def amountOf_def)
qed

section \<open>Theorems about the application state\<close>

text \<open>
  C9 (as amended). \<open>GetChainID\<close> panics exactly when the stored chain identifier is the
  empty string: on a new state, and also after \<open>SetChainID("")\<close>. After
  \<open>SetChainID(id)\<close> with a non-empty \<open>id\<close> it returns \<open>id\<close>.
\<close>

theorem GetChainID_after_SetChainID:
  "GetChainID (NewState cli) = Inl (PanicSanity ''Expected to have set SetChainID'') \<and>
   (newChainID \<noteq> '''' \<longrightarrow> GetChainID (SetChainID s newChainID) = Inr newChainID) \<and>
   (newChainID = '''' \<longrightarrow>
      GetChainID (SetChainID s newChainID) = Inl (PanicSanity ''Expected to have set SetChainID''))"
  by (simp add: GetChainID_def SetChainID_def NewState_def)

theorem GetChainID_after_SetChainID_witness:
  "GetChainID (SetChainID (NewState ()) ''test_chain_id'') = Inr ''test_chain_id'' \<and>
   GetChainID (NewState ()) = Inl (PanicSanity ''Expected to have set SetChainID'')"
  using GetChainID_after_SetChainID [of "()" "''test_chain_id''" "NewState ()"]
  by simp

text \<open>
  The claim as first stated: after \<open>SetChainID(id)\<close> with any \<open>id\<close>, \<open>GetChainID\<close>
  returns \<open>id\<close>. It fails for the empty identifier.
\<close>

theorem GetChainID_empty_id_counterexample:
  "GetChainID (SetChainID (NewState ()) '''') \<noteq> Inr ''''"
  by (simp add: GetChainID_def SetChainID_def NewState_def)

section \<open>Theorems about the slashing hooks\<close>

text \<open>
  C8. \<open>OnValidatorBonded\<close> at address \<open>address\<close>: when the store holds no signing info
  for the address, one is stored with the start height set to the block height, index
  offset 0, jailed-until \<open>time.Unix(0, 0)\<close> and signed-blocks counter 0; when one exists,
  it stays as it is. Signing infos of other addresses are not touched. In both cases the
  slashing period stored for the address and the block height has that start height,
  end height 0 and slashed-so-far \<open>ZeroDec\<close>. The block height is not changed.
\<close>

theorem OnValidatorBonded_records:
  "(signingInfoStore ctx address = None \<longrightarrow>
      signingInfoStore (OnValidatorBonded zeroDec ctx address) address
        = Some \<lparr>StartHeight = BlockHeight ctx, IndexOffset = 0,
                 JailedUntil = Unix 0 0, SignedBlocksCounter = 0\<rparr>) \<and>
   (signingInfoStore ctx address \<noteq> None \<longrightarrow>
      signingInfoStore (OnValidatorBonded zeroDec ctx address) address
        = signingInfoStore ctx address) \<and>
   (\<forall>other. other \<noteq> address \<longrightarrow>
      signingInfoStore (OnValidatorBonded zeroDec ctx address) other
        = signingInfoStore ctx other) \<and>
   slashingPeriodStore (OnValidatorBonded zeroDec ctx address) (address, BlockHeight ctx)
     = Some \<lparr>ValidatorAddr = address, PeriodStartHeight = BlockHeight ctx,
              EndHeight = 0, SlashedSoFar = zeroDec\<rparr> \<and>
   (\<forall>key. key \<noteq> (address, BlockHeight ctx) \<longrightarrow>
      slashingPeriodStore (OnValidatorBonded zeroDec ctx address) key
        = slashingPeriodStore ctx key) \<and>
   BlockHeight (OnValidatorBonded zeroDec ctx address) = BlockHeight ctx"
  by (auto simp: OnValidatorBonded_def onValidatorBonded_def getValidatorSigningInfo_def
        setValidatorSigningInfo_def addOrUpdateValidatorSlashingPeriod_def Let_def
        split: option.splits)

theorem OnValidatorBonded_records_witness:
  "signingInfoStore
     (OnValidatorBonded (0::int)
        \<lparr>BlockHeight = 7, signingInfoStore = Map.empty, slashingPeriodStore = Map.empty\<rparr> [1, 2])
     [1, 2]
     = Some \<lparr>StartHeight = 7, IndexOffset = 0, JailedUntil = Unix 0 0, SignedBlocksCounter = 0\<rparr> \<and>
   signingInfoStore
     (OnValidatorBonded (0::int)
        \<lparr>BlockHeight = 9,
         signingInfoStore =
           [[1, 2] \<mapsto> \<lparr>StartHeight = 7, IndexOffset = 3, JailedUntil = Unix 5 0,
                         SignedBlocksCounter = 2\<rparr>],
         slashingPeriodStore = Map.empty\<rparr> [1, 2])
     [1, 2]
     = Some \<lparr>StartHeight = 7, IndexOffset = 3, JailedUntil = Unix 5 0, SignedBlocksCounter = 2\<rparr> \<and>
   slashingPeriodStore
     (OnValidatorBonded (0::int)
        \<lparr>BlockHeight = 7, signingInfoStore = Map.empty, slashingPeriodStore = Map.empty\<rparr> [1, 2])
     ([1, 2], 7)
     = Some \<lparr>ValidatorAddr = [1, 2], PeriodStartHeight = 7, EndHeight = 0, SlashedSoFar = 0\<rparr>"
  using OnValidatorBonded_records
          [of "\<lparr>BlockHeight = 7, signingInfoStore = Map.empty, slashingPeriodStore = Map.empty\<rparr>"
              "[1, 2]" "0::int"]
        OnValidatorBonded_records
          [of "\<lparr>BlockHeight = 9,
                signingInfoStore =
                  [[1, 2] \<mapsto> \<lparr>StartHeight = 7, IndexOffset = 3, JailedUntil = Unix 5 0,
                                SignedBlocksCounter = 2\<rparr>],
                slashingPeriodStore = Map.empty\<rparr>"
              "[1, 2]" "0::int"]
  by simp

section \<open>Theorems about pools and candidates\<close>





lemma move_b2u:
  "bondedToUnbondedPool p candidate =
     (p\<lparr>BondedShares := BondedShares p - Assets candidate,
        BondedPool := BondedPool p - Evaluate (bondedShareExRate p * Assets candidate),
        UnbondedPool := UnbondedPool p + Evaluate (bondedShareExRate p * Assets candidate),
        UnbondedShares := UnbondedShares p + Assets candidate\<rparr>,
      candidate\<lparr>Status := Unbonded\<rparr>)"
  by (simp add: bondedToUnbondedPool_def removeSharesBonded_def Let_def)

lemma move_u2b:
  "unbondedToBondedPool p candidate =
     (p\<lparr>UnbondedShares := UnbondedShares p - Assets candidate,
        UnbondedPool := UnbondedPool p - Evaluate (unbondedShareExRate p * Assets candidate),
        BondedPool := BondedPool p + Evaluate (unbondedShareExRate p * Assets candidate),
        BondedShares := BondedShares p + Assets candidate\<rparr>,
      candidate\<lparr>Status := Bonded\<rparr>)"
  by (simp add: unbondedToBondedPool_def removeSharesUnbonded_def Let_def)


text \<open>
  C5. For every pool and every candidate, \<open>bondedToUnbondedPool\<close> takes the candidate's
  token value (its assets at the bonded rate, rounded down) from \<open>BondedPool\<close> and adds
  the same amount to \<open>UnbondedPool\<close>; \<open>unbondedToBondedPool\<close> does the same in the other
  direction at the unbonded rate. The candidate comes back with its status changed and
  nothing else, so its assets and liabilities are as before, and its assets move from the
  share total of one pool to the share total of the other.
\<close>

theorem pool_transition_frame:
  "BondedPool (fst (bondedToUnbondedPool p candidate))
     = BondedPool p - Evaluate (bondedShareExRate p * Assets candidate) \<and>
   UnbondedPool (fst (bondedToUnbondedPool p candidate))
     = UnbondedPool p + Evaluate (bondedShareExRate p * Assets candidate) \<and>
   snd (bondedToUnbondedPool p candidate) = candidate\<lparr>Status := Unbonded\<rparr> \<and>
   Assets (snd (bondedToUnbondedPool p candidate)) = Assets candidate \<and>
   Liabilities (snd (bondedToUnbondedPool p candidate)) = Liabilities candidate \<and>
   BondedShares (fst (bondedToUnbondedPool p candidate)) = BondedShares p - Assets candidate \<and>
   UnbondedShares (fst (bondedToUnbondedPool p candidate)) = UnbondedShares p + Assets candidate \<and>
   BondedPool (fst (unbondedToBondedPool p candidate))
     = BondedPool p + Evaluate (unbondedShareExRate p * Assets candidate) \<and>
   UnbondedPool (fst (unbondedToBondedPool p candidate))
     = UnbondedPool p - Evaluate (unbondedShareExRate p * Assets candidate) \<and>
   snd (unbondedToBondedPool p candidate) = candidate\<lparr>Status := Bonded\<rparr> \<and>
   Assets (snd (unbondedToBondedPool p candidate)) = Assets candidate \<and>
   Liabilities (snd (unbondedToBondedPool p candidate)) = Liabilities candidate \<and>
   BondedShares (fst (unbondedToBondedPool p candidate)) = BondedShares p + Assets candidate \<and>
   UnbondedShares (fst (unbondedToBondedPool p candidate)) = UnbondedShares p - Assets candidate"
  by (simp add: move_b2u move_u2b)

lemma randomOperation_conserves:
  "randomOperation operation s = Inr s' \<Longrightarrow> totalTokens s' = totalTokens s"
proof (cases s)
  case (fields p c t)
  assume r: "randomOperation operation s = Inr s'"
  show ?thesis
  proof (cases operation)
    case (BondUnbond index)
    with r fields show ?thesis
      by (auto simp: totalTokens_def move_b2u move_u2b Let_def split: if_splits)
  next
    case (AddTokens tokensDraw index)
    with r fields show ?thesis
      by (auto simp: totalTokens_def candidateAddTokens_def addTokensBonded_def
            addTokensUnbonded_def Let_def split: if_splits sum.splits prod.splits)
  next
    case (RemoveShares sharesDraw index)
    with r fields show ?thesis
      by (auto simp: totalTokens_def candidateRemoveShares_def removeSharesBonded_def
            removeSharesUnbonded_def Let_def split: if_splits prod.splits)
  qed
qed

lemma verifiedOperation_Inr:
  "verifiedOperation operation s = Inr s' \<Longrightarrow>
   randomOperation operation s = Inr s' \<and> postCondition (fst s')"
  by (auto simp: verifiedOperation_def split: sum.splits prod.splits if_splits)

lemma runOperations_conserves:
  "runOperations operations s = Inr s' \<Longrightarrow> totalTokens s' = totalTokens s"
proof (induction operations arbitrary: s)
  case Nil
  then show ?case by simp
next
  case (Cons operation operations)
  then obtain s1 where s1: "verifiedOperation operation s = Inr s1"
    and rest: "runOperations operations s1 = Inr s'"
    by (auto split: sum.splits)
  from s1 have "totalTokens s1 = totalTokens s"
    using verifiedOperation_Inr randomOperation_conserves by blast
  with Cons.IH [OF rest] show ?case by simp
qed

text \<open>
  C1. Each of the three operations of \<open>randomOperation\<close> (bond or unbond a candidate, add
  tokens to a candidate, remove shares from a candidate), whenever it returns a state,
  leaves the \<open>int64\<close> sum \<open>UnbondedPool + BondedPool + tokens\<close> as it was, in every
  state; and so does every run of such operations.
\<close>

theorem tokens_conserved:
  "(randomOperation operation s = Inr s' \<longrightarrow> totalTokens s' = totalTokens s) \<and>
   (runOperations operations s = Inr s'' \<longrightarrow> totalTokens s'' = totalTokens s)"
  using randomOperation_conserves runOperations_conserves by blast

theorem tokens_conserved_witness:
  "runOperations [RemoveShares 1 0, BondUnbond 0, AddTokens 10 1]
     (randomSetup [randomCandidate True ''k1'' 5 10, randomCandidate False ''k2'' 7 0] 100)
     = Inr (\<lparr>TotalSupply = 0, BondedShares = 0, UnbondedShares = 253 / 12,
              BondedPool = 0, UnbondedPool = 22, InflationLastTime = 0,
              Inflation = 7 / 100\<rparr>,
            [\<lparr>Status = Unbonded, Address = ''A58856F0FD53BF058B4909A21AEC019107BA6160'',
              PubKey = ''k1'', Assets = 9 / 2, Liabilities = 9\<rparr>,
             \<lparr>Status = Unbonded, Address = ''A58856F0FD53BF058B4909A21AEC019107BA6160'',
              PubKey = ''k2'', Assets = 199 / 12, Liabilities = 115 / 12\<rparr>],
            90) \<and>
   totalTokens
     (\<lparr>TotalSupply = 0, BondedShares = 0, UnbondedShares = 253 / 12,
       BondedPool = 0, UnbondedPool = 22, InflationLastTime = 0, Inflation = 7 / 100\<rparr>,
      [\<lparr>Status = Unbonded, Address = ''A58856F0FD53BF058B4909A21AEC019107BA6160'',
        PubKey = ''k1'', Assets = 9 / 2, Liabilities = 9\<rparr>,
       \<lparr>Status = Unbonded, Address = ''A58856F0FD53BF058B4909A21AEC019107BA6160'',
        PubKey = ''k2'', Assets = 199 / 12, Liabilities = 115 / 12\<rparr>],
      90)
     = totalTokens
         (randomSetup [randomCandidate True ''k1'' 5 10, randomCandidate False ''k2'' 7 0] 100)"
proof -
  let ?s0 = "randomSetup [randomCandidate True ''k1'' 5 10, randomCandidate False ''k2'' 7 0] 100"
  let ?s1 = "(\<lparr>TotalSupply = 0, BondedShares = 0, UnbondedShares = 253 / 12,
              BondedPool = 0, UnbondedPool = 22, InflationLastTime = 0,
              Inflation = 7 / 100\<rparr>,
            [\<lparr>Status = Unbonded, Address = ''A58856F0FD53BF058B4909A21AEC019107BA6160'',
              PubKey = ''k1'', Assets = 9 / 2, Liabilities = 9\<rparr>,
             \<lparr>Status = Unbonded, Address = ''A58856F0FD53BF058B4909A21AEC019107BA6160'',
              PubKey = ''k2'', Assets = 199 / 12, Liabilities = 115 / 12\<rparr>],
            90 :: 64 word)"
  have run: "runOperations [RemoveShares 1 0, BondUnbond 0, AddTokens 10 1] ?s0 = Inr ?s1"
    by code_simp
  from tokens_conserved [of "BondUnbond 0" ?s0 ?s0
         "[RemoveShares 1 0, BondUnbond 0, AddTokens 10 1]" ?s1] run
  show ?thesis by blast
qed





















section \<open>Theorems about delegations and unbonding delegations\<close>

lemma NewRat_numeral_10: "NewRat 10 = 10" "NewRat 4 = 4"
  by (simp_all add: NewRat_def)

lemma Evaluate_numerals: "Evaluate 6 = 6" "Evaluate 4 = 4"
  by (simp_all add: Evaluate_def)

lemma Delegate_fresh:
  assumes v: "validators k validator = Some candidate"
    and c: "Status candidate = Bonded" "Assets candidate = 0" "Liabilities candidate = 0"
    and p: "BondedShares (stakingPool k) = 0" "BondedPool (stakingPool k) = 0"
    and d: "delegations k (delegator, validator) = None"
    and a: "accounts k delegator = Some held" "10 \<le> held"
  shows "Delegate k delegator validator 10 =
     Inr (k\<lparr>stakingPool := (stakingPool k)\<lparr>BondedPool := 10, BondedShares := 10\<rparr>,
            validators := (validators k)(validator \<mapsto> candidate\<lparr>Assets := 10, Liabilities := 10\<rparr>),
            delegations := (delegations k)((delegator, validator) \<mapsto>
               \<lparr>DelegatorAddress = delegator, ValidatorAddress = validator, Shares = 10\<rparr>),
            accounts := (accounts k)(delegator \<mapsto> held - 10)\<rparr>)"
  using assms
  by (simp add: Delegate_def candidateAddTokens_def addTokensBonded_def bondedShareExRate_def
        delegatorShareExRate_def NewRat_numeral_10 Let_def)

lemma Unbond_six_of_ten:
  assumes v: "validators k1 validator = Some candidate1"
    and c: "Status candidate1 = Bonded" "Assets candidate1 = 10" "Liabilities candidate1 = 10"
    and p: "BondedShares (stakingPool k1) = 10" "BondedPool (stakingPool k1) = 10"
    and d: "delegations k1 (delegator, validator) = Some delegation" "Shares delegation = 10"
  shows "Unbond k1 delegator validator 6 =
     Inr (k1\<lparr>stakingPool := (stakingPool k1)\<lparr>BondedShares := 4, BondedPool := 4\<rparr>,
             validators := (validators k1)(validator \<mapsto> candidate1\<lparr>Assets := 4, Liabilities := 4\<rparr>),
             delegations := (delegations k1)((delegator, validator) \<mapsto> delegation\<lparr>Shares := 4\<rparr>)\<rparr>,
          6)"
  using assms
  by (simp add: Unbond_def candidateRemoveShares_def removeSharesBonded_def bondedShareExRate_def
        delegatorShareExRate_def NewRat_numeral_10 Evaluate_numerals Let_def)

lemma Undelegate_full:
  "maxEntries k \<le> length (pendingEntries k delegator validator) \<Longrightarrow>
   Undelegate k delegator validator shares = (Inl MaxEntriesExceeded, k)"
  by (simp add: Undelegate_def)

lemma CompleteUnbonding_entries:
  assumes "unbondingDelegations k (delegator, validator) = Some ubd"
  shows "\<exists>k1. CompleteUnbonding k delegator validator = Inr k1 \<and>
     pendingEntries k1 delegator validator
       = filter (\<lambda>entry. \<not> CompletionTime entry \<le> blockTime k) (pendingEntries k delegator validator) \<and>
     stakingPool k1 = stakingPool k \<and> validators k1 = validators k \<and>
     delegations k1 = delegations k \<and> maxEntries k1 = maxEntries k \<and>
     blockTime k1 = blockTime k \<and> unbondingPeriod k1 = unbondingPeriod k \<and>
     blockHeight k1 = blockHeight k"
  using assms by (simp add: CompleteUnbonding_def pendingEntries_def Let_def)

lemma filter_shorter:
  "x \<in> set xs \<Longrightarrow> \<not> P x \<Longrightarrow> length (filter P xs) < length xs"
  by (metis filter_id_conv length_filter_le le_neq_implies_less length_filter_less)

lemma Unbond_succeeds:
  assumes "delegations k (delegator, validator) = Some delegation"
    and "validators k validator = Some candidate"
    and "shares \<le> Shares delegation"
  shows "\<exists>k1 tokens. Unbond k delegator validator shares = Inr (k1, tokens) \<and>
           unbondingDelegations k1 = unbondingDelegations k"
  using assms by (simp add: Unbond_def Let_def split: prod.splits)

text \<open>
  C6. A delegator with at least 10 tokens delegates 10 tokens to a fresh validator (both
  rates 1): the delegation holds 10 shares. Undelegating 6 shares then succeeds with
  completion time \<open>blockTime + unbondingPeriod\<close>, which lies in the future because the
  unbonding period is positive; the shares are burnt with a return of 6 tokens (the
  result of \<open>Unbond\<close>); the delegation is left with 4 shares and the validator with 4
  bonded tokens; and the pair has one unbonding entry, with balance 6.
\<close>

theorem delegate_then_undelegate:
  assumes fresh: "freshValidator k validator"
    and none: "delegations k (delegator, validator) = None"
              "unbondingDelegations k (delegator, validator) = None"
    and funds: "accounts k delegator = Some held" "10 \<le> held"
    and params: "0 < maxEntries k" "0 < unbondingPeriod k"
  shows "\<exists>k1 k2 k3 validator2.
     Delegate k delegator validator 10 = Inr k1 \<and>
     map_option Shares (delegations k1 (delegator, validator)) = Some 10 \<and>
     Unbond k1 delegator validator 6 = Inr (k3, 6) \<and>
     Undelegate k1 delegator validator 6 = (Inr (blockTime k + unbondingPeriod k), k2) \<and>
     map_option Shares (delegations k2 (delegator, validator)) = Some 4 \<and>
     validators k2 validator = Some validator2 \<and>
     BondedTokens (stakingPool k2) validator2 = 4 \<and>
     pendingEntries k2 delegator validator =
       [\<lparr>CreationHeight = blockHeight k, CompletionTime = blockTime k + unbondingPeriod k,
         InitialBalance = 6, Balance = 6\<rparr>] \<and>
     blockTime k2 < blockTime k + unbondingPeriod k"
proof -
  from fresh obtain candidate where v: "validators k validator = Some candidate"
    and c: "Status candidate = Bonded" "Assets candidate = 0" "Liabilities candidate = 0"
    and p: "BondedShares (stakingPool k) = 0" "BondedPool (stakingPool k) = 0"
    by (auto simp: freshValidator_def split: option.splits)
  define k1 where "k1 = k\<lparr>stakingPool := (stakingPool k)\<lparr>BondedPool := 10, BondedShares := 10\<rparr>,
            validators := (validators k)(validator \<mapsto> candidate\<lparr>Assets := 10, Liabilities := 10\<rparr>),
            delegations := (delegations k)((delegator, validator) \<mapsto>
               \<lparr>DelegatorAddress = delegator, ValidatorAddress = validator, Shares = 10\<rparr>),
            accounts := (accounts k)(delegator \<mapsto> held - 10)\<rparr>"
  have D: "Delegate k delegator validator 10 = Inr k1"
    unfolding k1_def by (rule Delegate_fresh [OF v c p none(1) funds])
  define k3 where "k3 = k1\<lparr>stakingPool := (stakingPool k1)\<lparr>BondedShares := 4, BondedPool := 4\<rparr>,
             validators := (validators k1)(validator \<mapsto>
                candidate\<lparr>Assets := 10, Liabilities := 10\<rparr>\<lparr>Assets := 4, Liabilities := 4\<rparr>),
             delegations := (delegations k1)((delegator, validator) \<mapsto>
                \<lparr>DelegatorAddress = delegator, ValidatorAddress = validator, Shares = 10\<rparr>
                  \<lparr>Shares := 4\<rparr>)\<rparr>"
  have U: "Unbond k1 delegator validator 6 = Inr (k3, 6)"
    unfolding k3_def
    by (rule Unbond_six_of_ten) (simp_all add: k1_def c)
  define entry where "entry = \<lparr>CreationHeight = blockHeight k,
     CompletionTime = blockTime k + unbondingPeriod k, InitialBalance = 6, Balance = 6\<rparr>"
  define k2 where "k2 = k3\<lparr>unbondingDelegations := (unbondingDelegations k3)
      ((delegator, validator) \<mapsto> \<lparr>UnbondingDelegatorAddress = delegator,
          UnbondingValidatorAddress = validator, Entries = [] @ [entry]\<rparr>)\<rparr>"
  have pe: "pendingEntries k1 delegator validator = []"
    using none(2) by (simp add: pendingEntries_def k1_def)
  have UD: "Undelegate k1 delegator validator 6 = (Inr (blockTime k + unbondingPeriod k), k2)"
    using params(1) by (simp add: Undelegate_def pe U Let_def k2_def entry_def) (simp add: k1_def)
  have s4: "map_option Shares (delegations k2 (delegator, validator)) = Some 4"
    by (simp add: k2_def k3_def)
  have v2: "validators k2 validator = Some (candidate\<lparr>Assets := 4, Liabilities := 4\<rparr>)"
    by (simp add: k2_def k3_def)
  have bt: "BondedTokens (stakingPool k2) (candidate\<lparr>Assets := 4, Liabilities := 4\<rparr>) = 4"
    by (simp add: BondedTokens_def c k2_def k3_def bondedShareExRate_def NewRat_numeral_10
          Evaluate_numerals)
  have pe2: "pendingEntries k2 delegator validator = [entry]"
    by (simp add: pendingEntries_def k2_def)
  have t: "blockTime k2 < blockTime k + unbondingPeriod k"
    using params(2) by (simp add: k2_def k3_def k1_def)
  have s10: "map_option Shares (delegations k1 (delegator, validator)) = Some 10"
    by (simp add: k1_def)
  from D s10 U UD s4 v2 bt pe2 t show ?thesis
    unfolding entry_def by blast
qed


theorem delegate_then_undelegate_witness:
  "freshValidator scenarioKeeper ''validator0'' \<and>
   (\<exists>k1 k2 k3 validator2.
     Delegate scenarioKeeper ''delegator0'' ''validator0'' 10 = Inr k1 \<and>
     map_option Shares (delegations k1 (''delegator0'', ''validator0'')) = Some 10 \<and>
     Unbond k1 ''delegator0'' ''validator0'' 6 = Inr (k3, 6) \<and>
     Undelegate k1 ''delegator0'' ''validator0'' 6 = (Inr 1814400, k2) \<and>
     map_option Shares (delegations k2 (''delegator0'', ''validator0'')) = Some 4 \<and>
     validators k2 ''validator0'' = Some validator2 \<and>
     BondedTokens (stakingPool k2) validator2 = 4 \<and>
     pendingEntries k2 ''delegator0'' ''validator0'' =
       [\<lparr>CreationHeight = 1, CompletionTime = 1814400, InitialBalance = 6, Balance = 6\<rparr>] \<and>
     blockTime k2 < 1814400)"
proof -
  have f: "freshValidator scenarioKeeper ''validator0''"
    by (simp add: freshValidator_def scenarioKeeper_def)
  have n1: "delegations scenarioKeeper (''delegator0'', ''validator0'') = None"
    and n2: "unbondingDelegations scenarioKeeper (''delegator0'', ''validator0'') = None"
    and a: "accounts scenarioKeeper ''delegator0'' = Some 10" "(10::int) \<le> 10"
    and p: "0 < maxEntries scenarioKeeper" "0 < unbondingPeriod scenarioKeeper"
    by (simp_all add: scenarioKeeper_def)
  from delegate_then_undelegate [OF f n1 n2 a p] f show ?thesis
    by (simp add: scenarioKeeper_def)
qed

text \<open>
  C7. When the pair already holds \<open>maxEntries\<close> (or more) pending entries, \<open>Undelegate\<close>
  fails with \<open>MaxEntriesExceeded\<close> and the state that comes back is the state before the
  call, with the same pool and the same unbonding delegation. When the pair holds at most
  \<open>maxEntries\<close> entries of which one has matured, \<open>CompleteUnbonding\<close> removes the
  matured entries, fewer than \<open>maxEntries\<close> stay, and an \<open>Undelegate\<close> of shares that the
  delegation holds then succeeds and appends one entry.
\<close>

theorem undelegate_max_entries:
  "(maxEntries k \<le> length (pendingEntries k delegator validator) \<longrightarrow>
      Undelegate k delegator validator shares = (Inl MaxEntriesExceeded, k)) \<and>
   (unbondingDelegations k (delegator, validator) = Some ubd \<and>
    length (Entries ubd) \<le> maxEntries k \<and>
    (\<exists>entry \<in> set (Entries ubd). CompletionTime entry \<le> blockTime k) \<and>
    delegations k (delegator, validator) = Some delegation \<and>
    shares \<le> Shares delegation \<and>
    validators k validator = Some candidate \<longrightarrow>
      (\<exists>k1 k2.
         CompleteUnbonding k delegator validator = Inr k1 \<and>
         length (pendingEntries k1 delegator validator) < maxEntries k \<and>
         stakingPool k1 = stakingPool k \<and>
         Undelegate k1 delegator validator shares
           = (Inr (blockTime k + unbondingPeriod k), k2) \<and>
         length (pendingEntries k2 delegator validator)
           = Suc (length (pendingEntries k1 delegator validator))))"
proof (intro conjI impI)
  assume "maxEntries k \<le> length (pendingEntries k delegator validator)"
  then show "Undelegate k delegator validator shares = (Inl MaxEntriesExceeded, k)"
    by (rule Undelegate_full)
next
  assume h: "unbondingDelegations k (delegator, validator) = Some ubd \<and>
    length (Entries ubd) \<le> maxEntries k \<and>
    (\<exists>entry \<in> set (Entries ubd). CompletionTime entry \<le> blockTime k) \<and>
    delegations k (delegator, validator) = Some delegation \<and>
    shares \<le> Shares delegation \<and>
    validators k validator = Some candidate"
  then have ubd: "unbondingDelegations k (delegator, validator) = Some ubd" by simp
  from CompleteUnbonding_entries [OF ubd] obtain k1 where
    c: "CompleteUnbonding k delegator validator = Inr k1"
    and pe: "pendingEntries k1 delegator validator
       = filter (\<lambda>entry. \<not> CompletionTime entry \<le> blockTime k)
           (pendingEntries k delegator validator)"
    and same: "stakingPool k1 = stakingPool k" "validators k1 = validators k"
      "delegations k1 = delegations k" "maxEntries k1 = maxEntries k"
      "blockTime k1 = blockTime k" "unbondingPeriod k1 = unbondingPeriod k"
    by blast
  have pk: "pendingEntries k delegator validator = Entries ubd"
    using ubd by (simp add: pendingEntries_def)
  from h obtain entry where "entry \<in> set (Entries ubd)" "CompletionTime entry \<le> blockTime k"
    by blast
  then have "length (pendingEntries k1 delegator validator) < length (Entries ubd)"
    unfolding pe pk by (intro filter_shorter) simp_all
  with h have less: "length (pendingEntries k1 delegator validator) < maxEntries k" by simp
  from h same have "delegations k1 (delegator, validator) = Some delegation"
    "validators k1 validator = Some candidate" "shares \<le> Shares delegation"
    by simp_all
  from Unbond_succeeds [OF this] obtain k3 tokens where
    u: "Unbond k1 delegator validator shares = Inr (k3, tokens)" by blast
  define k2 where "k2 = k3\<lparr>unbondingDelegations :=
      (unbondingDelegations k3)
        ((delegator, validator) \<mapsto>
           \<lparr>UnbondingDelegatorAddress = delegator, UnbondingValidatorAddress = validator,
            Entries = pendingEntries k1 delegator validator
              @ [\<lparr>CreationHeight = blockHeight k1,
                   CompletionTime = blockTime k1 + unbondingPeriod k1,
                   InitialBalance = tokens, Balance = tokens\<rparr>]\<rparr>)\<rparr>"
  have ud: "Undelegate k1 delegator validator shares
              = (Inr (blockTime k + unbondingPeriod k), k2)"
    using less same by (simp add: Undelegate_def u Let_def k2_def)
  have len: "length (pendingEntries k2 delegator validator)
               = Suc (length (pendingEntries k1 delegator validator))"
    by (simp add: k2_def pendingEntries_def)
  from c less same(1) ud len
  show "\<exists>k1 k2.
         CompleteUnbonding k delegator validator = Inr k1 \<and>
         length (pendingEntries k1 delegator validator) < maxEntries k \<and>
         stakingPool k1 = stakingPool k \<and>
         Undelegate k1 delegator validator shares
           = (Inr (blockTime k + unbondingPeriod k), k2) \<and>
         length (pendingEntries k2 delegator validator)
           = Suc (length (pendingEntries k1 delegator validator))"
    by blast
qed

theorem undelegate_max_entries_witness:
  "Undelegate fullKeeper ''delegator0'' ''validator0'' 1 = (Inl MaxEntriesExceeded, fullKeeper) \<and>
   (\<exists>k1 k2.
      CompleteUnbonding fullKeeper ''delegator0'' ''validator0'' = Inr k1 \<and>
      length (pendingEntries k1 ''delegator0'' ''validator0'') < 2 \<and>
      stakingPool k1 = stakingPool fullKeeper \<and>
      Undelegate k1 ''delegator0'' ''validator0'' 1 = (Inr 3628800, k2) \<and>
      length (pendingEntries k2 ''delegator0'' ''validator0'')
        = Suc (length (pendingEntries k1 ''delegator0'' ''validator0'')))"
  using undelegate_max_entries
          [of fullKeeper "''delegator0''" "''validator0''" 1
              "\<lparr>UnbondingDelegatorAddress = ''delegator0'',
                UnbondingValidatorAddress = ''validator0'',
                Entries =
                  [\<lparr>CreationHeight = 1, CompletionTime = 1814400, InitialBalance = 1,
                    Balance = 1\<rparr>,
                   \<lparr>CreationHeight = 2, CompletionTime = 1814405, InitialBalance = 1,
                    Balance = 1\<rparr>]\<rparr>"
              "\<lparr>DelegatorAddress = ''delegator0'', ValidatorAddress = ''validator0'',
                Shares = 8\<rparr>"
              "\<lparr>Status = Bonded, Address = ''validator0'', PubKey = ''pk0'',
                Assets = 8, Liabilities = 8\<rparr>"]
  by (simp add: fullKeeper_def pendingEntries_def)

end
